theory Spec2Isabelle
  imports Main "HOL-Library.AList"
begin

section \<open>JavaScript strings\<close>

text \<open>
  A JavaScript string is a sequence of UTF-16 code units. The model covers strings whose
  code units are below 256: a \<^typ>\<open>char\<close> is the code unit of that number, so that
  \<open>length\<close> is the source's \<open>.length\<close>.
\<close>

definition code :: "char \<Rightarrow> nat" where
  "code c = of_char c"

definition toLowerChar :: "char \<Rightarrow> char" where
  \<comment> \<open>\<open>String.prototype.toLowerCase\<close> on one code unit below 256: A-Z, and the
      capital letters U+00C0..U+00DE except the multiplication sign U+00D7.\<close>
  "toLowerChar c =
     (let n = code c in
      if (65 \<le> n \<and> n \<le> 90) \<or> (192 \<le> n \<and> n \<le> 222 \<and> n \<noteq> 215)
      then char_of (n + 32) else c)"

definition toLowerCase :: "string \<Rightarrow> string" where
  "toLowerCase s = map toLowerChar s"

definition isSpace :: "char \<Rightarrow> bool" where
  \<comment> \<open>The white space and line terminators of ECMAScript below 256: TAB, LF, VT, FF, CR,
      SP and NBSP. It is the class \<open>\s\<close> of a regular expression and what \<open>trim\<close> removes.\<close>
  "isSpace c = (let n = code c in (9 \<le> n \<and> n \<le> 13) \<or> n = 32 \<or> n = 160)"

definition trim :: "string \<Rightarrow> string" where
  "trim s = rev (dropWhile isSpace (rev (dropWhile isSpace s)))"

definition isAsciiLetter :: "char \<Rightarrow> bool" where
  "isAsciiLetter c = (let n = code c in (65 \<le> n \<and> n \<le> 90) \<or> (97 \<le> n \<and> n \<le> 122))"

definition isDigit :: "char \<Rightarrow> bool" where
  "isDigit c = (let n = code c in 48 \<le> n \<and> n \<le> 57)"

fun startsWith :: "string \<Rightarrow> string \<Rightarrow> bool" where
  "startsWith s [] = True"
| "startsWith [] (p # ps) = False"
| "startsWith (c # cs) (p # ps) = (c = p \<and> startsWith cs ps)"

fun indexOf :: "string \<Rightarrow> string \<Rightarrow> int" where
  \<comment> \<open>\<open>s.indexOf(pat)\<close>: the first position where \<open>pat\<close> occurs in \<open>s\<close>, or -1.\<close>
  "indexOf [] pat = (if pat = [] then 0 else - 1)"
| "indexOf (c # cs) pat =
     (if startsWith (c # cs) pat then 0
      else (let r = indexOf cs pat in if r = - 1 then - 1 else r + 1))"

fun replaceFirst :: "string \<Rightarrow> string \<Rightarrow> string \<Rightarrow> string" where
  \<comment> \<open>\<open>s.replace(pat, rep)\<close> with a string pattern: only the first occurrence is replaced.\<close>
  "replaceFirst [] pat rep = (if pat = [] then rep else [])"
| "replaceFirst (c # cs) pat rep =
     (if startsWith (c # cs) pat then rep @ drop (length pat) (c # cs)
      else c # replaceFirst cs pat rep)"

fun split :: "char \<Rightarrow> string \<Rightarrow> string list" where
  \<comment> \<open>\<open>s.split(sep)\<close> for a separator of one character; \<open>''''.split(sep)\<close> is \<open>['''']\<close>.\<close>
  "split sep [] = [[]]"
| "split sep (c # cs) =
     (if c = sep then [] # split sep cs
      else (case split sep cs of [] \<Rightarrow> [[c]] | w # ws \<Rightarrow> (c # w) # ws))"

fun join :: "string \<Rightarrow> string list \<Rightarrow> string" where
  \<comment> \<open>\<open>parts.join(sep)\<close>\<close>
  "join sep [] = []"
| "join sep [x] = x"
| "join sep (x # y # ys) = x @ sep @ join sep (y # ys)"

definition truthy :: "string option \<Rightarrow> bool" where
  \<comment> \<open>A value that is a string or \<open>undefined\<close>: falsy when undefined or empty.\<close>
  "truthy v = (case v of None \<Rightarrow> False | Some s \<Rightarrow> s \<noteq> [])"

section \<open>POSIX paths of Node's \<open>path\<close> module\<close>

text \<open>
  \<open>path.sep\<close> is \<open>/\<close>. The functions follow Node's \<open>posix\<close> implementation:
  \<open>normalizeArray\<close> drops empty and \<open>.\<close> segments and resolves \<open>..\<close>.
\<close>

definition sep :: char where
  "sep = CHR ''/''"

fun normalizeArray :: "string list \<Rightarrow> bool \<Rightarrow> string list \<Rightarrow> string list" where
  "normalizeArray [] allowAboveRoot res = res"
| "normalizeArray (p # ps) allowAboveRoot res =
     (if p = [] \<or> p = ''.'' then normalizeArray ps allowAboveRoot res
      else if p = ''..'' then
        (if res \<noteq> [] \<and> last res \<noteq> ''..'' then normalizeArray ps allowAboveRoot (butlast res)
         else if allowAboveRoot then normalizeArray ps allowAboveRoot (res @ [''..''])
         else normalizeArray ps allowAboveRoot res)
      else normalizeArray ps allowAboveRoot (res @ [p]))"

definition isAbsolute :: "string \<Rightarrow> bool" where
  "isAbsolute p = (case p of [] \<Rightarrow> False | c # cs \<Rightarrow> c = sep)"

definition normalize :: "string \<Rightarrow> string" where
  "normalize p =
     (let abs = isAbsolute p;
          trailingSlash = (p \<noteq> [] \<and> last p = sep);
          q = join [sep] (normalizeArray (split sep p) (\<not> abs) []);
          q1 = (if q = [] \<and> \<not> abs then ''.'' else q);
          q2 = (if q1 \<noteq> [] \<and> trailingSlash then q1 @ [sep] else q1)
      in (if abs then [sep] else []) @ q2)"

definition path_join :: "string list \<Rightarrow> string" where
  \<comment> \<open>\<open>path.join(...)\<close>: the non-empty arguments joined by \<open>/\<close>, then normalised.\<close>
  "path_join segs = normalize (join [sep] (filter (\<lambda>s. s \<noteq> []) segs))"

definition path_resolve :: "string \<Rightarrow> string \<Rightarrow> string" where
  \<comment> \<open>\<open>path.resolve(p)\<close> in the working directory \<open>cwd\<close> (an absolute path).\<close>
  "path_resolve cwd p =
     (let full = (if p = [] then cwd @ [sep]
                  else if isAbsolute p then p @ [sep]
                  else cwd @ [sep] @ p @ [sep]);
          abs = isAbsolute full;
          q = (if abs then [sep] else []) @ join [sep] (normalizeArray (split sep full) (\<not> abs) [])
      in if q = [] then ''.'' else q)"

definition path_basename :: "string \<Rightarrow> string" where
  \<comment> \<open>\<open>path.basename(p)\<close>: the last segment, trailing separators ignored.\<close>
  "path_basename p = last (split sep (rev (dropWhile (\<lambda>c. c = sep) (rev p))))"

section \<open>The runtime base class (src/lib/RuntimeBase.js)\<close>

datatype rerror =
    SError string
  | SyntaxError string
  | ENOENT string
  | IOError string

record custom =
  excludePatterns :: "string list option"
  includePaths :: "string list option"

text \<open>
  A function object as the runtime sees it. \<open>getRootPath\<close> belongs to the function class,
  which is not part of the sources at hand, and is taken as a field.
\<close>

record func =
  getName :: string
  handler :: string
  getRootPath :: "string \<Rightarrow> string"
  func_custom :: custom

text \<open>
  \<open>new RegExp(sRegex)\<close> is the JavaScript engine's: it throws a \<open>SyntaxError\<close> on a string
  that is no regular expression, and otherwise gives a matcher whose \<open>exec\<close> is non-null on
  the strings the expression matches. The engine is a parameter of the model.
\<close>

type_synonym regexp = "string \<Rightarrow> (string \<Rightarrow> bool) option"

definition stripSep :: "string \<Rightarrow> string" where
  \<comment> \<open>\<open>(relPath.charAt(0) == path.sep) ? relPath.substr(1) : relPath\<close>\<close>
  "stripSep relPath = (case relPath of [] \<Rightarrow> [] | c # cs \<Rightarrow> if c = sep then cs else relPath)"

fun exclude_some :: "regexp \<Rightarrow> string list \<Rightarrow> string \<Rightarrow> rerror + bool" where
  \<comment> \<open>\<open>excludePatterns.some(...)\<close>: the callback reassigns \<open>relPath\<close>, so the stripped
      path is what the next pattern sees; the first match ends the loop.\<close>
  "exclude_some re [] relPath = Inr False"
| "exclude_some re (sRegex # rest) relPath =
     (let relPath' = stripSep relPath in
      case re sRegex of
        None \<Rightarrow> Inl (SyntaxError sRegex)
      | Some matches \<Rightarrow> if matches relPath' then Inr True else exclude_some re rest relPath')"

definition relPath0 :: "string \<Rightarrow> string \<Rightarrow> string \<Rightarrow> string" where
  \<comment> \<open>\<open>path.join(prefix.replace(pathDist, ''), name)\<close>\<close>
  "relPath0 pathDist name prefix = path_join [replaceFirst prefix pathDist [], name]"

definition patterns :: "func \<Rightarrow> string list" where
  \<comment> \<open>\<open>func.custom.excludePatterns || []\<close>\<close>
  "patterns f = (case excludePatterns (func_custom f) of None \<Rightarrow> [] | Some ps \<Rightarrow> ps)"

definition exclude :: "regexp \<Rightarrow> func \<Rightarrow> string \<Rightarrow> string \<Rightarrow> string \<Rightarrow> rerror + bool" where
  \<comment> \<open>The closure returned by \<open>_exclude(func, pathDist, stage, region)\<close>, applied to
      \<open>(name, prefix)\<close>. Debug logging is left out.\<close>
  "exclude re f pathDist name prefix =
     (if patterns f = [] then Inr False
      else exclude_some re (patterns f) (relPath0 pathDist name prefix))"


definition literalRegExp :: regexp where
  \<comment> \<open>An engine for the patterns without metacharacters, which match the strings that
      contain them; a lone opening parenthesis is no regular expression.\<close>
  "literalRegExp sRegex = (if sRegex = ''('' then None else Some (\<lambda>s. indexOf s sRegex \<noteq> - 1))"



definition exampleFunc :: func where
  "exampleFunc =
     \<lparr>getName = ''hello'', handler = ''hello/handler.handler'',
      getRootPath = (\<lambda>seg. path_join [''/proj/functions/hello'', seg]),
      func_custom = \<lparr>excludePatterns = Some [''tests'', ''tmp''], includePaths = None\<rparr>\<rparr>"

subsection \<open>The file system and the copy library\<close>

text \<open>
  \<open>fs.lstatSync\<close> and wrench's \<open>readdirSyncRecursive\<close> read the file system; both throw on
  a path that does not exist. The file system is a value the functions take, so that what
  they do in any state of the disk is covered.
\<close>

datatype kind = IsFile | IsDirectory | IsOther

record world =
  lstatSync :: "string \<Rightarrow> kind option"
  readdirSyncRecursive :: "string \<Rightarrow> string list option"

text \<open>
  wrench's \<open>copyDirSyncRecursive(source, target, {exclude})\<close> is a parameter as well: from the
  source directory, the target, the exclusion closure and the file system it gives the
  error thrown, if any, and the file system it leaves.
\<close>

type_synonym copier =
  "string \<Rightarrow> string \<Rightarrow> (string \<Rightarrow> string \<Rightarrow> rerror + bool) \<Rightarrow> world \<Rightarrow> rerror option \<times> world"

text \<open>A directory tree, from which concrete file systems are built.\<close>

datatype node = File | Dir "(string \<times> node) list"

fun lookup :: "node \<Rightarrow> string list \<Rightarrow> node option" where
  "lookup n [] = Some n"
| "lookup File (s # ss) = None"
| "lookup (Dir es) (s # ss) = (case map_of es s of None \<Rightarrow> None | Some c \<Rightarrow> lookup c ss)"

fun listing :: "node \<Rightarrow> string list" where
  \<comment> \<open>The entries of a directory first, then those of each subdirectory in turn, as paths
      relative to the directory.\<close>
  "listing File = []"
| "listing (Dir es) =
     map fst es @ concat (map (\<lambda>e. map (\<lambda>f. fst e @ [sep] @ f) (listing (snd e))) es)"

definition segments :: "string \<Rightarrow> string list" where
  "segments p = filter (\<lambda>s. s \<noteq> []) (split sep p)"

definition world_of :: "node \<Rightarrow> world" where
  "world_of root =
     \<lparr>lstatSync = (\<lambda>p. case lookup root (segments p) of
                          None \<Rightarrow> None
                        | Some File \<Rightarrow> Some IsFile
                        | Some (Dir es) \<Rightarrow> Some IsDirectory),
      readdirSyncRecursive = (\<lambda>p. case lookup root (segments p) of
                          None \<Rightarrow> None
                        | Some n \<Rightarrow> Some (listing n))\<rparr>"

subsection \<open>Copying a function into its distribution directory\<close>

definition invalidHandler :: "string \<Rightarrow> rerror" where
  "invalidHandler h =
     SError (''This function'' @ [char_of (39 :: nat)] @
             ''s handler is invalid and not in the file system: '' @ h)"

definition handlerFullPath :: "func \<Rightarrow> string" where
  \<comment> \<open>\<open>func.getRootPath(func.handler.split('/')[func.handler.split('/').length - 1])\<close>\<close>
  "handlerFullPath f = getRootPath f (last (split sep (handler f)))"


definition copyDir :: "copier \<Rightarrow> regexp \<Rightarrow> func \<Rightarrow> string \<Rightarrow> world \<Rightarrow> (rerror + unit) \<times> world" where
  \<comment> \<open>\<open>_copyDir(func, pathDist, stage, region)\<close>, the same statements as \<open>_copyFunction\<close>\<close>
  "copyDir copy re f pathDist w =
     (if indexOf (handlerFullPath f) (handler f) = - 1
      then (Inl (invalidHandler (handler f)), w)
      else
        (let packageRoot = replaceFirst (handlerFullPath f) (handler f) [] in
         case copy packageRoot pathDist (exclude re f pathDist) w of
           (Some e, w') \<Rightarrow> (Inl e, w')
         | (None, w') \<Rightarrow> (Inr (), w')))"

definition afterCopyDir :: "func \<Rightarrow> string \<Rightarrow> world \<Rightarrow> (rerror + unit) \<times> world" where
  \<comment> \<open>\<open>_afterCopyDir\<close> resolves at once.\<close>
  "afterCopyDir f pathDist w = (Inr (), w)"

subsection \<open>The artifact manifest\<close>

record entry =
  entry_name :: string
  entry_path :: string

definition ignore :: "string list" where
  "ignore = [''.DS_Store'']"

definition ignored :: "string \<Rightarrow> bool" where
  \<comment> \<open>\<open>for (i ...) if (file.toLowerCase().indexOf(ignore[i]) > -1) return;\<close>\<close>
  "ignored file = list_ex (\<lambda>ig. indexOf (toLowerCase file) ig > - 1) ignore"

fun collectDir :: "world \<Rightarrow> string \<Rightarrow> string \<Rightarrow> string list \<Rightarrow> rerror + entry list" where
  \<comment> \<open>The loop over the files of one included directory.\<close>
  "collectDir w dirname fullPath [] = Inr []"
| "collectDir w dirname fullPath (file # files) =
     (if ignored file then collectDir w dirname fullPath files
      else
        (let filePath = path_join [fullPath, file] in
         case lstatSync w filePath of
           None \<Rightarrow> Inl (ENOENT filePath)
         | Some k \<Rightarrow>
             (case collectDir w dirname fullPath files of
                Inl e \<Rightarrow> Inl e
              | Inr rest \<Rightarrow>
                  Inr (if k = IsFile
                       then \<lparr>entry_name = path_join [dirname, file], entry_path = filePath\<rparr> # rest
                       else rest))))"

fun includeLoop :: "string \<Rightarrow> world \<Rightarrow> string \<Rightarrow> string list \<Rightarrow> rerror + entry list" where
  \<comment> \<open>\<open>includePaths.forEach(p => ...)\<close>, the entries pushed in order.\<close>
  "includeLoop cwd w pathDist [] = Inr []"
| "includeLoop cwd w pathDist (p # ps) =
     (let fullPath = path_resolve cwd (path_join [pathDist, p]) in
      case lstatSync w fullPath of
        None \<Rightarrow> Inl (ENOENT fullPath)
      | Some k \<Rightarrow>
          (case (case k of
                   IsFile \<Rightarrow> Inr [\<lparr>entry_name = p, entry_path = fullPath\<rparr>]
                 | IsDirectory \<Rightarrow>
                     (case readdirSyncRecursive w fullPath of
                        None \<Rightarrow> Inl (ENOENT fullPath)
                      | Some files \<Rightarrow> collectDir w (path_basename p) fullPath files)
                 | IsOther \<Rightarrow> Inr []) of
             Inl e \<Rightarrow> Inl e
           | Inr found \<Rightarrow>
               (case includeLoop cwd w pathDist ps of
                  Inl e \<Rightarrow> Inl e
                | Inr rest \<Rightarrow> Inr (found @ rest))))"

definition generateIncludePaths :: "string \<Rightarrow> func \<Rightarrow> string \<Rightarrow> world \<Rightarrow> rerror + entry list" where
  \<comment> \<open>\<open>_generateIncludePaths(func, pathDist)\<close>; \<open>cwd\<close> is the working directory that
      \<open>path.resolve\<close> reads.\<close>
  "generateIncludePaths cwd f pathDist w =
     (let paths = (case includePaths (func_custom f) of None \<Rightarrow> [''.''] | Some ps \<Rightarrow> ps)
      in includeLoop cwd w pathDist paths)"

subsection \<open>Building\<close>

definition build :: "func \<Rightarrow> string \<Rightarrow> string \<Rightarrow> world \<Rightarrow> (rerror + entry list option) \<times> world" where
  \<comment> \<open>\<open>build(func, stage, region) { return BbPromise.resolve(); }\<close>: the promise resolves
      with \<open>undefined\<close>, which is \<open>None\<close>.\<close>
  "build f stage region w = (Inr None, w)"

function digits :: "nat \<Rightarrow> string" where
  \<comment> \<open>A number converted to a string, as \<open>'@' + d.getTime()\<close> does.\<close>
  "digits n = (if n < 10 then [char_of (48 + n)] else digits (n div 10) @ [char_of (48 + n mod 10)])"
  by pat_completeness auto
termination
  by (relation "measure id") auto

definition distPath :: "string \<Rightarrow> string \<Rightarrow> nat \<Rightarrow> string" where
  \<comment> \<open>The path \<open>_createDistDir\<close> computes:
      \<open>getRootPath('_meta', '_tmp', funcName + '@' + d.getTime())\<close> of the project.\<close>
  "distPath projectRoot funcName time =
     path_join [projectRoot, ''_meta'', ''_tmp'', funcName @ ''@'' @ digits time]"

definition packagingEngine_build ::
  "copier \<Rightarrow> regexp \<Rightarrow> string \<Rightarrow> string \<Rightarrow> nat \<Rightarrow> func \<Rightarrow> string \<Rightarrow> string \<Rightarrow> world
   \<Rightarrow> (rerror + entry list option) \<times> world" where
  \<comment> \<open>The packaging pipeline in the words of the specification (section 4.4), made of the
      helper methods of the class: the distribution directory, the copy with exclusions,
      the hook after the copy, the collection of the include paths, whose manifest is the
      result.\<close>
  "packagingEngine_build copy re cwd projectRoot time f stage region w =
     (let pathDist = distPath projectRoot (getName f) time in
      case copyDir copy re f pathDist w of
        (Inl e, w1) \<Rightarrow> (Inl e, w1)
      | (Inr u, w1) \<Rightarrow>
          (case afterCopyDir f pathDist w1 of
             (Inl e, w2) \<Rightarrow> (Inl e, w2)
           | (Inr u', w2) \<Rightarrow>
               (case generateIncludePaths cwd f pathDist w2 of
                  Inl e \<Rightarrow> (Inl e, w2)
                | Inr manifest \<Rightarrow> (Inr (Some manifest), w2))))"

definition distRoot :: node where
  \<comment> \<open>A disk whose directory \<open>/dist\<close> holds exactly the files \<open>index.js\<close>,
      \<open>lib/helper.js\<close> and \<open>.DS_Store\<close>.\<close>
  "distRoot =
     Dir [(''dist'',
           Dir [(''.DS_Store'', File), (''index.js'', File),
                (''lib'', Dir [(''helper.js'', File)])])]"

definition projRoot :: node where
  \<comment> \<open>A project whose function \<open>hello\<close> has been copied into its distribution
      directory.\<close>
  "projRoot =
     Dir [(''proj'',
           Dir [(''functions'', Dir [(''hello'', Dir [(''handler.js'', File)])]),
                (''_meta'',
                 Dir [(''_tmp'',
                       Dir [(''hello@7'', Dir [(''hello'', Dir [(''handler.js'', File)])])])])])]"

definition copyExample :: copier where
  \<comment> \<open>A copy that leaves the disk of \<open>projRoot\<close>.\<close>
  "copyExample source target excl w = (None, world_of projRoot)"



definition noCustom :: custom where
  \<comment> \<open>Include paths \<open>['.']\<close> and no exclusion patterns.\<close>
  "noCustom = \<lparr>excludePatterns = None, includePaths = Some [''.'']\<rparr>"

section \<open>The command that creates a project (JAWS \<open>new\<close>)\<close>

subsection \<open>Data\<close>

datatype errorCode = UNKNOWN | INVALID_PROJ_NAME | MISSING_AWS_CREDS

datatype jerror =
    JawsError string errorCode
  | ReferenceError string
  | TypeError string
  | Failure string

text \<open>
  \<open>Failure\<close> is the error of a collaborator (a call to the cloud provider, a disk operation).
  \<open>ReferenceError x\<close> is what the engine throws when the identifier \<open>x\<close> is not bound.
\<close>

record answers =
  answers_name :: string
  answers_stage :: string
  answers_s3Bucket :: string
  answers_region :: string
  answers_notificationEmail :: string
  answers_awsProfile :: "string option"
  answers_awsAdminKeyId :: "string option"
  answers_awsAdminSecretKey :: "string option"

text \<open>The module-level variable \<open>project\<close>, passed from step to step.\<close>

record project =
  project_name :: string
  project_awsProfile :: string
  project_stage :: string
  project_region :: string
  project_notificationEmail :: string
  project_s3Bucket :: string
  project_rootPath :: string

record deployment =
  deployment_region :: string
  iamRoleArnLambda :: string
  iamRoleArnApiGateway :: string

record envVarBucket =
  bucket_name :: string
  bucket_region :: string

text \<open>
  \<open>jawsJson.project.stages\<close> is a plain object used as a dictionary. Its own properties are
  what \<open>Object.keys\<close> and \<open>JSON.stringify\<close> see. The key \<open>__proto__\<close> is no own
  property: assigning an array to it replaces the prototype of the object, and reading it
  gives the prototype back.
\<close>

record stagesObject =
  ownProperties :: "(string \<times> deployment list) list"
  prototypeArray :: "deployment list option"

definition emptyObject :: stagesObject where
  "emptyObject = \<lparr>ownProperties = [], prototypeArray = None\<rparr>"

definition setProperty :: "stagesObject \<Rightarrow> string \<Rightarrow> deployment list \<Rightarrow> stagesObject" where
  \<comment> \<open>\<open>obj[key] = array\<close>\<close>
  "setProperty obj key array =
     (if key = ''__proto__'' then obj\<lparr>prototypeArray := Some array\<rparr>
      else obj\<lparr>ownProperties := AList.update key array (ownProperties obj)\<rparr>)"

definition pushProperty :: "stagesObject \<Rightarrow> string \<Rightarrow> deployment \<Rightarrow> jerror + stagesObject" where
  \<comment> \<open>\<open>obj[key].push(x)\<close>. A key that is no own property is found in the prototype chain
      or not at all, and what is found there under a name other than \<open>__proto__\<close> is no
      array: the call of \<open>push\<close> throws.\<close>
  "pushProperty obj key x =
     (if key = ''__proto__'' then
        (case prototypeArray obj of
           None \<Rightarrow> Inl (TypeError ''push'')
         | Some array \<Rightarrow> Inr (obj\<lparr>prototypeArray := Some (array @ [x])\<rparr>))
      else
        (case map_of (ownProperties obj) key of
           None \<Rightarrow> Inl (TypeError ''push'')
         | Some array \<Rightarrow>
             Inr (obj\<lparr>ownProperties := AList.update key (array @ [x]) (ownProperties obj)\<rparr>)))"

record jawsJson =
  json_name :: string
  json_version :: string
  json_location :: string
  json_author :: string
  json_description :: string
  json_stages :: stagesObject
  json_envVarBucket :: envVarBucket

subsection \<open>Effects\<close>

datatype content =
    Text string
  | CfTemplateJson string string string string
  | JawsJsonFile jawsJson

text \<open>
  \<open>CfTemplateJson name stage prefix email\<close> is the CloudFormation template with the defaults
  of its parameters set. An event is one call of a collaborator, with its arguments.
\<close>

datatype event =
    ProfilesSet string string "string option" "string option"
  | CreateBucket string string string
  | PutEnvFile string string string string string string
  | WriteFile string content
  | Mkdir string
  | CfCreateStack string string string string string string
  | MonitorCfCreate string string string
  | WriteFileSync string content

text \<open>
  The world the command runs in: what the user answers, what is on the disk, and whether
  each call of a collaborator fails.
\<close>

record env =
  credentialsExist :: bool
  profiles :: "string list"
  prompted :: answers
  env_cwd :: string
  existsSync :: "string \<Rightarrow> bool"
  shortid_generate :: string
  createBucket :: "string \<Rightarrow> string \<Rightarrow> string \<Rightarrow> jerror option"
  putEnvFile :: "string \<Rightarrow> string \<Rightarrow> string \<Rightarrow> string \<Rightarrow> string \<Rightarrow> string \<Rightarrow> jerror option"
  writeFile :: "string \<Rightarrow> content \<Rightarrow> jerror option"
  mkdirAsync :: "string \<Rightarrow> jerror option"
  cfCreateStack :: "string \<Rightarrow> string \<Rightarrow> string \<Rightarrow> string \<Rightarrow> string \<Rightarrow> string \<Rightarrow> jerror + string"
  monitorCfCreate :: "string \<Rightarrow> string \<Rightarrow> string \<Rightarrow> jerror + (string \<times> string) list option"
  writeFileSync :: "string \<Rightarrow> content \<Rightarrow> jerror option"
  firstInTime :: "jerror list \<Rightarrow> nat"

text \<open>
  A promise that has settled: the calls made so far, each with whether it succeeded, and
  the error or the value.
\<close>

type_synonym 'a run = "(event \<times> bool) list \<times> (jerror + 'a)"

definition andThen :: "'a run \<Rightarrow> ('a \<Rightarrow> 'b run) \<Rightarrow> 'b run" where
  \<comment> \<open>\<open>promise.then(f)\<close>: \<open>f\<close> runs only when the promise is fulfilled.\<close>
  "andThen r f =
     (case r of
        (tr, Inl e) \<Rightarrow> (tr, Inl e)
      | (tr, Inr x) \<Rightarrow> (case f x of (tr', r') \<Rightarrow> (tr @ tr', r')))"

definition call :: "event \<Rightarrow> jerror option \<Rightarrow> unit run" where
  "call ev failure = ([(ev, failure = None)], case failure of None \<Rightarrow> Inr () | Some e \<Rightarrow> Inl e)"

definition promiseAll :: "env \<Rightarrow> (event \<times> jerror option) list \<Rightarrow> unit run" where
  \<comment> \<open>\<open>Promise.all([...])\<close>: every operation of the array is started; the promise is
      rejected when one of them is, with the rejection that comes first in time, which
      \<open>firstInTime\<close> of the environment picks among the rejections.\<close>
  "promiseAll e ops =
     (map (\<lambda>op. (fst op, snd op = None)) ops,
      case List.map_filter snd ops of
        [] \<Rightarrow> Inr ()
      | err # errs \<Rightarrow> Inl ((err # errs) ! (firstInTime e (err # errs) mod length (err # errs))))"

definition discard :: "jerror option \<Rightarrow> 'a \<Rightarrow> 'a" where
  \<comment> \<open>A statement \<open>Promise.reject(error);\<close> whose promise is neither returned nor awaited:
      the function goes on with the next statement.\<close>
  "discard rejected continue = continue"

subsection \<open>The steps\<close>

definition orElse :: "string option \<Rightarrow> string \<Rightarrow> string" where
  \<comment> \<open>\<open>v || d\<close>\<close>
  "orElse v d = (case v of None \<Rightarrow> d | Some s \<Rightarrow> if s = [] then d else s)"

definition getAnswers ::
  "env \<Rightarrow> string option \<Rightarrow> string option \<Rightarrow> string option \<Rightarrow> string option \<Rightarrow> string option
   \<Rightarrow> string option \<Rightarrow> answers" where
  \<comment> \<open>\<open>_getAnswers\<close>: a parameter that is given overrides the prompt of its field.\<close>
  "getAnswers e projName stage s3Bucket lambdaRegion notificationEmail awsProfile =
     \<lparr>answers_name = orElse projName (answers_name (prompted e)),
      answers_stage = orElse stage (answers_stage (prompted e)),
      answers_s3Bucket = orElse s3Bucket (answers_s3Bucket (prompted e)),
      answers_region = orElse lambdaRegion (answers_region (prompted e)),
      answers_notificationEmail = orElse notificationEmail (answers_notificationEmail (prompted e)),
      answers_awsProfile =
        (if credentialsExist e then
           (case awsProfile of
              None \<Rightarrow> answers_awsProfile (prompted e)
            | Some p \<Rightarrow> if p \<noteq> [] \<and> p \<in> set (profiles e) then Some p
                        else answers_awsProfile (prompted e))
         else None),
      answers_awsAdminKeyId =
        (if credentialsExist e then None else answers_awsAdminKeyId (prompted e)),
      answers_awsAdminSecretKey =
        (if credentialsExist e then None else answers_awsAdminSecretKey (prompted e))\<rparr>"

definition keptByFirstReplace :: "char \<Rightarrow> bool" where
  \<comment> \<open>The characters that \<open>.replace(/[^a-zA-Z-\d\s:]/g, '')\<close> leaves.\<close>
  "keptByFirstReplace c =
     (isAsciiLetter c \<or> c = CHR ''-'' \<or> isDigit c \<or> isSpace c \<or> c = CHR '':'')"

definition normalizeName :: "string \<Rightarrow> string" where
  \<comment> \<open>\<open>answers.name.toLowerCase().trim().replace(/[^a-zA-Z-\d\s:]/g, '')
      .replace(/\s/g, '-').substring(0, 19)\<close>\<close>
  "normalizeName raw =
     take 19 (map (\<lambda>c. if isSpace c then CHR ''-'' else c)
                  (filter keptByFirstReplace (trim (toLowerCase raw))))"

definition allowedChar :: "char \<Rightarrow> bool" where
  \<comment> \<open>The class \<open>[a-zA-Z0-9-]\<close>\<close>
  "allowedChar c = (isAsciiLetter c \<or> isDigit c \<or> c = CHR ''-'')"

definition nameOk :: "string \<Rightarrow> bool" where
  \<comment> \<open>\<open>/^([a-zA-Z0-9-]+)$/.exec(project.name)\<close> is not null.\<close>
  "nameOk s = (s \<noteq> [] \<and> list_all allowedChar s)"

definition uniqueSuffix :: "env \<Rightarrow> string" where
  \<comment> \<open>\<open>'-' + shortid.generate().replace(/[_-]/g, '')\<close>\<close>
  "uniqueSuffix e = ''-'' @ filter (\<lambda>c. c \<noteq> CHR ''_'' \<and> c \<noteq> CHR ''-'') (shortid_generate e)"

definition uniqueName :: "env \<Rightarrow> string \<Rightarrow> string" where
  \<comment> \<open>\<open>if (fs.existsSync(path.join(process.cwd(), project.name))) project.name = ...\<close>\<close>
  "uniqueName e nm =
     (if existsSync e (path_join [env_cwd e, nm]) then nm @ uniqueSuffix e else nm)"

definition setOtherData :: "answers \<Rightarrow> project \<Rightarrow> project" where
  "setOtherData a pr =
     pr\<lparr>project_stage := answers_stage a,
        project_region := answers_region a,
        project_notificationEmail := trim (answers_notificationEmail a),
        project_s3Bucket := answers_s3Bucket a\<rparr>"

definition createProfile :: "answers \<Rightarrow> project \<Rightarrow> project run" where
  \<comment> \<open>The branch without a profile. \<open>reject\<close> is bound nowhere in the module: calling it
      throws a \<open>ReferenceError\<close> before the error of the argument is built.\<close>
  "createProfile a pr =
     (if \<not> truthy (answers_awsAdminKeyId a) then ([], Inl (ReferenceError ''reject''))
      else if \<not> truthy (answers_awsAdminSecretKey a) then ([], Inl (ReferenceError ''reject''))
      else ([(ProfilesSet ''default'' (answers_region a)
                (answers_awsAdminKeyId a) (answers_awsAdminSecretKey a), True)],
            Inr (setOtherData a (pr\<lparr>project_awsProfile := ''default''\<rparr>))))"

definition prepareProjectData :: "env \<Rightarrow> project \<Rightarrow> answers \<Rightarrow> project run" where
  \<comment> \<open>\<open>_prepareProjectData(answers)\<close>\<close>
  "prepareProjectData e pr a =
     discard (if toLowerCase (answers_stage a) = ''local''
              then Some (JawsError (''Stage '' @ answers_stage a @ '' is reserved'') UNKNOWN)
              else None)
     (let nm = normalizeName (answers_name a) in
      discard (if \<not> nameOk nm
               then Some (JawsError ''Project names can only be alphanumeric and -''
                            INVALID_PROJ_NAME)
               else None)
      (let pr1 = pr\<lparr>project_name := uniqueName e nm\<rparr> in
       case answers_awsProfile a of
         None \<Rightarrow> createProfile a pr1
       | Some p \<Rightarrow>
           if p \<noteq> [] then ([], Inr (setOtherData a (pr1\<lparr>project_awsProfile := p\<rparr>)))
           else createProfile a pr1))"

definition envFileContents :: "project \<Rightarrow> string" where
  "envFileContents pr =
     ''JAWS_STAGE='' @ project_stage pr @ [char_of (10 :: nat)] @
     ''JAWS_DATA_MODEL_PREFIX='' @ project_stage pr"

definition createS3JawsStructure :: "env \<Rightarrow> project \<Rightarrow> unit run" where
  \<comment> \<open>\<open>_createS3JawsStructure()\<close>\<close>
  "createS3JawsStructure e pr =
     andThen
       (call (CreateBucket (project_awsProfile pr) (project_region pr) (project_s3Bucket pr))
          (createBucket e (project_awsProfile pr) (project_region pr) (project_s3Bucket pr)))
       (\<lambda>u. call (PutEnvFile (project_awsProfile pr) (project_region pr) (project_s3Bucket pr)
                     (project_name pr) (project_stage pr) (envFileContents pr))
                  (putEnvFile e (project_awsProfile pr) (project_region pr) (project_s3Bucket pr)
                     (project_name pr) (project_stage pr) (envFileContents pr)))"

definition written :: "env \<Rightarrow> string \<Rightarrow> content \<Rightarrow> event \<times> jerror option" where
  "written e p c = (WriteFile p c, writeFile e p c)"

definition made :: "env \<Rightarrow> string \<Rightarrow> event \<times> jerror option" where
  "made e p = (Mkdir p, mkdirAsync e p)"

definition createProjectDirectory :: "env \<Rightarrow> project \<Rightarrow> project run" where
  \<comment> \<open>\<open>_createProjectDirectory()\<close>; \<open>path.dirname('.')\<close> is \<open>'.'\<close> and \<open>os.EOL\<close> a line
      feed.\<close>
  "createProjectDirectory e pr =
     (let root = path_resolve (env_cwd e) (path_join [''.'', project_name pr]);
          pr1 = pr\<lparr>project_rootPath := root\<rparr>;
          adminEnv = ''ADMIN_AWS_PROFILE='' @ project_awsProfile pr @ [char_of (10 :: nat)];
          cfTemplate = CfTemplateJson (project_name pr) (project_stage pr) (project_stage pr)
                         (project_notificationEmail pr)
      in andThen
           (call (WriteFile (path_join [root, ''back'', ''.env'']) (Text (envFileContents pr)))
              (writeFile e (path_join [root, ''back'', ''.env'']) (Text (envFileContents pr))))
           (\<lambda>u. andThen
              (promiseAll e
                 [made e (path_join [root, ''front'']),
                  made e (path_join [root, ''tests'']),
                  made e (path_join [root, ''back/lambdas'']),
                  made e (path_join [root, ''back/lib'']),
                  written e (path_join [root, ''admin.env'']) (Text adminEnv),
                  written e (path_join [root, ''jaws-cf.json'']) cfTemplate])
              (\<lambda>u. ([], Inr pr1))))"

definition createCfStack :: "env \<Rightarrow> project \<Rightarrow> (string \<times> string) list option run" where
  \<comment> \<open>\<open>_createCfStack()\<close>, without the messages and the spinner\<close>
  "createCfStack e pr =
     (case cfCreateStack e (project_awsProfile pr) (project_region pr) (project_rootPath pr)
             (project_name pr) (project_stage pr) (project_notificationEmail pr) of
        Inl err \<Rightarrow>
          ([(CfCreateStack (project_awsProfile pr) (project_region pr) (project_rootPath pr)
               (project_name pr) (project_stage pr) (project_notificationEmail pr), False)],
           Inl err)
      | Inr cfData \<Rightarrow>
          ([(CfCreateStack (project_awsProfile pr) (project_region pr) (project_rootPath pr)
               (project_name pr) (project_stage pr) (project_notificationEmail pr), True),
            (MonitorCfCreate cfData (project_awsProfile pr) (project_region pr),
             \<not> isl (monitorCfCreate e cfData (project_awsProfile pr) (project_region pr)))],
           monitorCfCreate e cfData (project_awsProfile pr) (project_region pr)))"

fun findOutput :: "string \<Rightarrow> (string \<times> string) list \<Rightarrow> string option \<Rightarrow> string option" where
  \<comment> \<open>The loop over \<open>cfOutputs\<close> for one key: the last output of that key stays.\<close>
  "findOutput key [] found = found"
| "findOutput key ((k, v) # outputs) found =
     findOutput key outputs (if k = key then Some v else found)"

definition createProjectJson :: "env \<Rightarrow> project \<Rightarrow> (string \<times> string) list option \<Rightarrow> jawsJson run" where
  \<comment> \<open>\<open>_createProjectJson(cfOutputs)\<close>\<close>
  "createProjectJson e pr cfOutputs =
     (let outputs = (case cfOutputs of None \<Rightarrow> [] | Some os \<Rightarrow> os);
          record = \<lparr>deployment_region = project_region pr,
                    iamRoleArnLambda = orElse (findOutput ''IamRoleArnLambda'' outputs None) [],
                    iamRoleArnApiGateway =
                      orElse (findOutput ''IamRoleArnApiGateway'' outputs None) []\<rparr>
      in case pushProperty (setProperty emptyObject (project_stage pr) []) (project_stage pr) record of
           Inl err \<Rightarrow> ([], Inl err)
         | Inr stages \<Rightarrow>
             (let json =
                \<lparr>json_name = project_name pr,
                 json_version = ''0.0.1'',
                 json_location = ''<enter project'' @ [char_of (39 :: nat)] @
                                 ''s github repository url here>'',
                 json_author = ''Vera D. Servers <vera@gmail.com> http://vera.io'',
                 json_description = project_name pr @
                   '': An ambitious, server-less application built with the JAWS framework.'',
                 json_stages = stages,
                 json_envVarBucket =
                   \<lparr>bucket_name = project_s3Bucket pr, bucket_region = project_region pr\<rparr>\<rparr>
              in andThen
                   (call (WriteFileSync (path_join [project_rootPath pr, ''jaws.json''])
                            (JawsJsonFile json))
                      (writeFileSync e (path_join [project_rootPath pr, ''jaws.json''])
                            (JawsJsonFile json)))
                   (\<lambda>u. ([], Inr json))))"

definition create ::
  "env \<Rightarrow> project \<Rightarrow> string option \<Rightarrow> string option \<Rightarrow> string option \<Rightarrow> string option
   \<Rightarrow> string option \<Rightarrow> string option \<Rightarrow> bool \<Rightarrow> jawsJson run" where
  \<comment> \<open>\<open>module.exports.create\<close>\<close>
  "create e pr projName stage s3Bucket lambdaRegion notificationEmail awsProfile noExeCf =
     andThen
       (prepareProjectData e pr
          (getAnswers e projName stage s3Bucket lambdaRegion notificationEmail awsProfile))
       (\<lambda>pr1. andThen (createS3JawsStructure e pr1)
       (\<lambda>u. andThen (createProjectDirectory e pr1)
       (\<lambda>pr2. if noExeCf then createProjectJson e pr2 None
               else andThen (createCfStack e pr2) (createProjectJson e pr2))))"

subsection \<open>Reading a trace\<close>

fun createsProjectFile :: "event \<Rightarrow> bool" where
  \<comment> \<open>The calls that create a directory or a file of the project.\<close>
  "createsProjectFile (WriteFile p c) = True"
| "createsProjectFile (Mkdir p) = True"
| "createsProjectFile (WriteFileSync p c) = True"
| "createsProjectFile ev = False"

fun writesLocalFile :: "event \<Rightarrow> bool" where
  \<comment> \<open>Modelled from the spec: \<open>AWSUtils.profilesSet\<close> is not among the sources. The
      specification calls it the credential store's \<open>createProfile\<close> and counts the writing
      of the credential file among the work of the collaborators; \<open>_getAnswers\<close> looks for
      that file, \<open>credentials\<close> in the configuration directory, on the local disk. So
      saving a profile writes a local file, as the calls that create the project do.\<close>
  "writesLocalFile (ProfilesSet pf rg k s) = True"
| "writesLocalFile ev = createsProjectFile ev"

fun bucketEnsured :: "event \<times> bool \<Rightarrow> bool" where
  "bucketEnsured (CreateBucket pf rg b, ok) = ok"
| "bucketEnsured x = False"

fun isPutEnvFile :: "event \<Rightarrow> bool" where
  "isPutEnvFile (PutEnvFile pf rg b n st c) = True"
| "isPutEnvFile ev = False"

fun envFileSeeded :: "event \<times> bool \<Rightarrow> bool" where
  "envFileSeeded (PutEnvFile pf rg b n st c, ok) = ok"
| "envFileSeeded x = False"



subsection \<open>A concrete world\<close>

definition someAnswers :: answers where
  "someAnswers =
     \<lparr>answers_name = ''jaws-new'', answers_stage = ''dev'',
      answers_s3Bucket = ''jawsproject.yourdomain.com'', answers_region = ''us-east-1'',
      answers_notificationEmail = [], answers_awsProfile = Some ''default'',
      answers_awsAdminKeyId = None, answers_awsAdminSecretKey = None\<rparr>"

definition someEnv :: env where
  \<comment> \<open>A credentials file with the profile \<open>default\<close>, a working directory that holds the
      directories \<open>demo\<close> and \<open>demo-Syx1Zq\<close>, and collaborators that all succeed.\<close>
  "someEnv =
     \<lparr>credentialsExist = True, profiles = [''default''], prompted = someAnswers,
      env_cwd = ''/home/u'',
      existsSync = (\<lambda>p. p \<in> set [''/home/u'', ''/home/u/demo'', ''/home/u/demo-Syx1Zq'']),
      shortid_generate = ''Sy_x-1Zq'',
      createBucket = (\<lambda>pf rg b. None),
      putEnvFile = (\<lambda>pf rg b n st c. None),
      writeFile = (\<lambda>p c. None),
      mkdirAsync = (\<lambda>p. None),
      cfCreateStack = (\<lambda>pf rg rt n st em. Inr ''stack-1''),
      monitorCfCreate = (\<lambda>d pf rg. Inr (Some [(''IamRoleArnLambda'', ''arn:l''),
                                               (''IamRoleArnApiGateway'', ''arn:g'')])),
      writeFileSync = (\<lambda>p c. None),
      firstInTime = (\<lambda>errs. 0)\<rparr>"

definition keysEnv :: env where
  \<comment> \<open>No credentials file, a user who types both keys, and a bucket that cannot be
      created.\<close>
  "keysEnv =
     someEnv\<lparr>credentialsExist := False,
             prompted := someAnswers\<lparr>answers_awsProfile := None,
                                     answers_awsAdminKeyId := Some ''AKIAEXAMPLE'',
                                     answers_awsAdminSecretKey := Some ''secret''\<rparr>,
             createBucket := (\<lambda>pf rg b. Some (Failure ''BucketAlreadyExists''))\<rparr>"

definition someProject :: project where
  "someProject =
     \<lparr>project_name = [], project_awsProfile = [], project_stage = [], project_region = [],
      project_notificationEmail = [], project_s3Bucket = [], project_rootPath = []\<rparr>"

section \<open>Properties of the runtime base class\<close>

subsection \<open>Paths and strings\<close>









lemma startsWith_iff: "startsWith s p \<longleftrightarrow> (\<exists>post. s = p @ post)"
  by (induction s p rule: startsWith.induct) auto

lemma indexOf_ge: "- 1 \<le> indexOf s p"
  by (induction s) (auto simp: Let_def)

lemma indexOf_Cons_none:
  "indexOf (c # cs) p = - 1 \<longleftrightarrow> \<not> startsWith (c # cs) p \<and> indexOf cs p = - 1"
  using indexOf_ge [of cs p] by (auto simp: Let_def)

lemma occurs_Cons:
  "(\<exists>pre post. c # cs = pre @ p @ post) \<longleftrightarrow>
   (\<exists>post. c # cs = p @ post) \<or> (\<exists>pre post. cs = pre @ p @ post)"
proof
  assume "\<exists>pre post. c # cs = pre @ p @ post"
  then obtain pre post where e: "c # cs = pre @ p @ post" by blast
  show "(\<exists>post. c # cs = p @ post) \<or> (\<exists>pre post. cs = pre @ p @ post)"
  proof (cases pre)
    case Nil
    then show ?thesis using e by auto
  next
    case (Cons a pre')
    then have "cs = pre' @ p @ post" using e by simp
    then show ?thesis by blast
  qed
next
  assume "(\<exists>post. c # cs = p @ post) \<or> (\<exists>pre post. cs = pre @ p @ post)"
  then show "\<exists>pre post. c # cs = pre @ p @ post"
  proof
    assume "\<exists>post. c # cs = p @ post"
    then obtain post where "c # cs = [] @ p @ post" by auto
    then show ?thesis by blast
  next
    assume "\<exists>pre post. cs = pre @ p @ post"
    then obtain pre post where "c # cs = (c # pre) @ p @ post" by auto
    then show ?thesis by blast
  qed
qed

lemma indexOf_none: "indexOf s p = - 1 \<longleftrightarrow> \<not> (\<exists>pre post. s = pre @ p @ post)"
proof (induction s)
  case Nil
  then show ?case by auto
next
  case (Cons c cs)
  show ?case
    unfolding indexOf_Cons_none occurs_Cons startsWith_iff Cons.IH by blast
qed







subsection \<open>The files that are never ignored\<close>

lemma toLowerChar_not_D: "toLowerChar c \<noteq> CHR ''D''"
proof
  assume a: "toLowerChar c = CHR ''D''"
  define n where "n = code c"
  have n: "n < 256" by (simp add: n_def code_def)
  show False
  proof (cases "(65 \<le> n \<and> n \<le> 90) \<or> (192 \<le> n \<and> n \<le> 222 \<and> n \<noteq> 215)")
    case True
    then have "toLowerChar c = char_of (n + 32)"
      unfolding n_def toLowerChar_def Let_def by (rule if_P)
    then have "of_char (char_of (n + 32) :: char) = (of_char (CHR ''D'') :: nat)"
      using a by simp
    then have "(n + 32) mod 256 = 68" by simp
    then show False using True n by (auto simp: mod_if split: if_splits)
  next
    case False
    then have "toLowerChar c = c"
      unfolding n_def toLowerChar_def Let_def by (rule if_not_P)
    then have "c = CHR ''D''" using a by simp
    then have "n = 68" by (simp add: n_def code_def)
    then show False using False by simp
  qed
qed

text \<open>
  The file name is put in lower case and then searched for \<open>.DS_Store\<close>, which has capital
  letters: the search finds nothing, whatever the file.
\<close>

lemma never_ignored: "\<not> ignored file"
proof
  assume "ignored file"
  then have "indexOf (toLowerCase file) ''.DS_Store'' \<noteq> - 1"
    by (auto simp: ignored_def ignore_def)
  then obtain pre post where "toLowerCase file = pre @ ''.DS_Store'' @ post"
    using indexOf_none by blast
  then have "CHR ''D'' \<in> set (toLowerCase file)" by simp
  then obtain x where "toLowerChar x = CHR ''D''" by (auto simp: toLowerCase_def)
  then show False by (simp add: toLowerChar_not_D)
qed

text \<open>
  Claim C7. On a distribution directory \<open>/dist\<close> that holds exactly \<open>index.js\<close>,
  \<open>lib/helper.js\<close> and \<open>.DS_Store\<close>, with the include paths \<open>['.']\<close> and no exclusion
  pattern, the manifest has three entries: \<open>.DS_Store\<close> is in it, followed by the two
  other files under their relative paths.
\<close>

theorem ds_store_in_manifest:
  "generateIncludePaths ''/'' (exampleFunc\<lparr>func_custom := noCustom\<rparr>) ''/dist'' (world_of distRoot) =
     Inr [\<lparr>entry_name = ''.DS_Store'', entry_path = ''/dist/.DS_Store''\<rparr>,
          \<lparr>entry_name = ''index.js'', entry_path = ''/dist/index.js''\<rparr>,
          \<lparr>entry_name = ''lib/helper.js'', entry_path = ''/dist/lib/helper.js''\<rparr>]"
  by code_simp

subsection \<open>The handler check\<close>




subsection \<open>The default build\<close>

text \<open>
  Claim C9, as stated, fails: for the function \<open>hello\<close> the build of the base class
  resolves with no value, where the packaging pipeline resolves with a manifest of one
  entry.
\<close>

theorem build_is_not_packaging:
  "fst (build exampleFunc ''dev'' ''us-east-1'' (world_of distRoot)) = Inr None \<and>
   fst (packagingEngine_build copyExample literalRegExp ''/'' ''/proj'' 7 exampleFunc ''dev'' ''us-east-1''
          (world_of distRoot)) =
     Inr (Some [\<lparr>entry_name = ''hello/handler.js'',
                 entry_path = ''/proj/_meta/_tmp/hello@7/hello/handler.js''\<rparr>])"
proof -
  have b1: "fst (build exampleFunc ''dev'' ''us-east-1'' (world_of distRoot)) = Inr None"
    by (simp add: build_def)
  have b2: "fst (packagingEngine_build copyExample literalRegExp ''/'' ''/proj'' 7 exampleFunc ''dev''
                   ''us-east-1'' (world_of distRoot)) =
     Inr (Some [\<lparr>entry_name = ''hello/handler.js'',
                 entry_path = ''/proj/_meta/_tmp/hello@7/hello/handler.js''\<rparr>])"
    by code_simp
  from b1 b2 show ?thesis by blast
qed

text \<open>
  Claim C9, amended. The build of the base class, when no runtime overrides it, resolves
  with no value and leaves the file system as it is, for every function, stage and region.
  It is not the packaging pipeline, which never resolves with no value: the steps of the
  pipeline are helper methods that a concrete runtime puts together in its own build.
\<close>

theorem build_resolves_empty:
  "build f stage region w = (Inr None, w) \<and>
   fst (packagingEngine_build copy re cwd projectRoot time f stage region w) \<noteq> Inr None"
  by (auto simp: build_def packagingEngine_build_def afterCopyDir_def Let_def
           split: prod.splits sum.splits)

section \<open>Properties of the command that creates a project\<close>

subsection \<open>Promises and the calls of each step\<close>

lemma andThen_Inl: "andThen (tr, Inl err) f = (tr, Inl err)"
  by (simp add: andThen_def)

lemma andThen_Inr: "andThen (tr, Inr v) f = (tr @ fst (f v), snd (f v))"
  by (simp add: andThen_def split: prod.splits)


lemma prepare_events:
  "x \<in> set (fst (prepareProjectData e pr a)) \<Longrightarrow> \<exists>rg k s. x = (ProfilesSet ''default'' rg k s, True)"
  by (auto simp: prepareProjectData_def discard_def createProfile_def Let_def
           split: option.splits if_splits)


lemma s3_cases:
  fixes e pr
  defines "cb \<equiv> CreateBucket (project_awsProfile pr) (project_region pr) (project_s3Bucket pr)"
    and "pe \<equiv> PutEnvFile (project_awsProfile pr) (project_region pr) (project_s3Bucket pr)
                (project_name pr) (project_stage pr) (envFileContents pr)"
  shows "(\<exists>err. createS3JawsStructure e pr = ([(cb, False)], Inl err)) \<or>
         (\<exists>err. createS3JawsStructure e pr = ([(cb, True), (pe, False)], Inl err)) \<or>
         createS3JawsStructure e pr = ([(cb, True), (pe, True)], Inr ())"
  by (auto simp: createS3JawsStructure_def andThen_def call_def cb_def pe_def split: option.splits)











subsection \<open>What the validation does\<close>

text \<open>
  No error of the command's own leaves \<open>_prepareProjectData\<close>: the two rejections it builds
  are dropped, and the third is never built.
\<close>

lemma prepareProjectData_never_JawsError:
  "snd (prepareProjectData e pr a) \<noteq> Inl (JawsError msg c)"
  by (auto simp: prepareProjectData_def discard_def createProfile_def Let_def
           split: option.splits if_splits)

text \<open>
  Claim C1. With the stage \<open>LOCAL\<close>, which is \<open>local\<close> in lower case, the command does not
  fail: it ensures the bucket, uploads the environment file, makes the eight directories
  and files of the project and resolves with a manifest whose stage is \<open>LOCAL\<close>.
\<close>

theorem local_stage_not_rejected:
  "toLowerCase ''LOCAL'' = ''local'' \<and>
   take 2 (fst (create someEnv someProject (Some ''myproject'') (Some ''LOCAL'') None None None None True)) =
     [(CreateBucket ''default'' ''us-east-1'' ''jawsproject.yourdomain.com'', True),
      (PutEnvFile ''default'' ''us-east-1'' ''jawsproject.yourdomain.com'' ''myproject'' ''LOCAL''
         (''JAWS_STAGE=LOCAL'' @ [char_of (10 :: nat)] @ ''JAWS_DATA_MODEL_PREFIX=LOCAL''), True)] \<and>
   map (\<lambda>y. (createsProjectFile (fst y), snd y))
     (drop 2 (fst (create someEnv someProject (Some ''myproject'') (Some ''LOCAL'') None None None None True))) =
     [(True, True), (True, True), (True, True), (True, True), (True, True), (True, True),
      (True, True), (True, True)] \<and>
   map_sum id (\<lambda>j. map fst (ownProperties (json_stages j)))
     (snd (create someEnv someProject (Some ''myproject'') (Some ''LOCAL'') None None None None True)) = Inr [''LOCAL'']"
proof -
  let ?A = "someAnswers\<lparr>answers_name := ''myproject'', answers_stage := ''LOCAL''\<rparr>"
  let ?P1 = "\<lparr>project_name = ''myproject'', project_awsProfile = ''default'', project_stage = ''LOCAL'',
       project_region = ''us-east-1'', project_notificationEmail = [],
       project_s3Bucket = ''jawsproject.yourdomain.com'', project_rootPath = []\<rparr>"
  let ?P2 = "\<lparr>project_name = ''myproject'', project_awsProfile = ''default'', project_stage = ''LOCAL'',
       project_region = ''us-east-1'', project_notificationEmail = [],
       project_s3Bucket = ''jawsproject.yourdomain.com'',
       project_rootPath = ''/home/u/myproject''\<rparr>"
  let ?T1 = "[(CreateBucket ''default'' ''us-east-1'' ''jawsproject.yourdomain.com'', True),
      (PutEnvFile ''default'' ''us-east-1'' ''jawsproject.yourdomain.com'' ''myproject'' ''LOCAL''
         (''JAWS_STAGE=LOCAL'' @ [char_of (10 :: nat)] @ ''JAWS_DATA_MODEL_PREFIX=LOCAL''), True)]"
  let ?K3 = "\<lambda>pr2. createProjectJson someEnv pr2 None"
  have a: "getAnswers someEnv (Some ''myproject'') (Some ''LOCAL'') None None None None = ?A"
    by (simp add: getAnswers_def someEnv_def someAnswers_def orElse_def)
  have p: "prepareProjectData someEnv someProject ?A = ([], Inr ?P1)"
    by code_simp
  have s: "createS3JawsStructure someEnv ?P1 = (?T1, Inr ())"
    by code_simp
  have d1: "snd (createProjectDirectory someEnv ?P1) = Inr ?P2"
    by code_simp
  have d: "createProjectDirectory someEnv ?P1 = (fst (createProjectDirectory someEnv ?P1), Inr ?P2)"
    using d1 by (metis prod.collapse)
  have k: "andThen (createProjectDirectory someEnv ?P1) ?K3 =
      (fst (createProjectDirectory someEnv ?P1) @ fst (createProjectJson someEnv ?P2 None),
       snd (createProjectJson someEnv ?P2 None))"
    by (subst d) (simp add: andThen_Inr)
  have run: "create someEnv someProject (Some ''myproject'') (Some ''LOCAL'') None None None None True =
      (?T1 @ fst (createProjectDirectory someEnv ?P1) @ fst (createProjectJson someEnv ?P2 None),
       snd (createProjectJson someEnv ?P2 None))"
    unfolding create_def a p andThen_Inr
    by (simp add: s andThen_Inr k)

  have l: "toLowerCase ''LOCAL'' = ''local''"
    by code_simp
  have d2: "map (\<lambda>y. (createsProjectFile (fst y), snd y)) (fst (createProjectDirectory someEnv ?P1)) =
      [(True, True), (True, True), (True, True), (True, True), (True, True), (True, True),
       (True, True)]"
    by code_simp
  have j1: "map_sum id (\<lambda>j. map fst (ownProperties (json_stages j)))
              (snd (createProjectJson someEnv ?P2 None)) = Inr [''LOCAL'']"
    by code_simp
  have j2: "map (\<lambda>y. (createsProjectFile (fst y), snd y)) (fst (createProjectJson someEnv ?P2 None)) =
      [(True, True)]"
    by code_simp
  show ?thesis
    unfolding run by (simp add: l d2 j1 j2)
qed


text \<open>
  Claim C2. The name \<open>a:b\<close> has a character outside \<open>[a-zA-Z0-9-]\<close>; the normalisation
  keeps it, the test of the name finds it, and \<open>_prepareProjectData\<close> resolves with the
  project name \<open>a:b\<close> all the same.
\<close>

theorem colon_kept_in_name:
  "map_sum id project_name
     (snd (prepareProjectData someEnv someProject (someAnswers\<lparr>answers_name := ''a:b''\<rparr>))) =
     Inr ''a:b'' \<and>
   allowedChar (CHR '':'') = False \<and> nameOk ''a:b'' = False"
  by code_simp

text \<open>
  Without a profile and without one of the two keys, \<open>_prepareProjectData\<close> throws the
  \<open>ReferenceError\<close> of the unbound \<open>reject\<close>.
\<close>

lemma missing_credentials_ReferenceError:
  "\<not> truthy (answers_awsProfile a) \<Longrightarrow>
   \<not> truthy (answers_awsAdminKeyId a) \<or> \<not> truthy (answers_awsAdminSecretKey a) \<Longrightarrow>
   prepareProjectData e pr a = ([], Inl (ReferenceError ''reject''))"
  by (auto simp: prepareProjectData_def discard_def createProfile_def truthy_def Let_def
           split: option.splits if_splits)

text \<open>
  Claim C3. With no credentials file, no access key id and a secret key, the command
  stops before any call of a collaborator, and its error is the \<open>ReferenceError\<close>, not the
  error of the missing credentials.
\<close>

theorem missing_credentials_not_reported:
  "create (someEnv\<lparr>credentialsExist := False,
                   prompted := someAnswers\<lparr>answers_awsProfile := None,
                                           answers_awsAdminKeyId := None,
                                           answers_awsAdminSecretKey := Some ''secret''\<rparr>\<rparr>)
      someProject None None None None None None False =
   ([], Inl (ReferenceError ''reject''))"
  by (simp add: create_def andThen_def prepareProjectData_def discard_def createProfile_def
        getAnswers_def someEnv_def someAnswers_def truthy_def Let_def)

subsection \<open>The order of the steps\<close>

text \<open>
  Claim C4, as stated, fails: without a credentials file the user types the two keys, the
  profile \<open>default\<close> is saved, which writes the credentials file, and only then is the
  bucket asked for. Here the bucket cannot be created: the run fails and the file is there.
\<close>

theorem credentials_saved_before_storage:
  "create keysEnv someProject None None None None None None False =
     ([(ProfilesSet ''default'' ''us-east-1'' (Some ''AKIAEXAMPLE'') (Some ''secret''), True),
       (CreateBucket ''default'' ''us-east-1'' ''jawsproject.yourdomain.com'', False)],
      Inl (Failure ''BucketAlreadyExists'')) \<and>
   list_ex (\<lambda>y. writesLocalFile (fst y) \<and> snd y)
     (takeWhile (\<lambda>y. \<not> envFileSeeded y)
        (fst (create keysEnv someProject None None None None None None False)))"
proof -
  have r: "create keysEnv someProject None None None None None None False =
     ([(ProfilesSet ''default'' ''us-east-1'' (Some ''AKIAEXAMPLE'') (Some ''secret''), True),
       (CreateBucket ''default'' ''us-east-1'' ''jawsproject.yourdomain.com'', False)],
      Inl (Failure ''BucketAlreadyExists''))"
    by (simp add: create_def andThen_def prepareProjectData_def discard_def createProfile_def
          createS3JawsStructure_def call_def setOtherData_def getAnswers_def keysEnv_def
          someEnv_def someAnswers_def orElse_def truthy_def Let_def)
  show ?thesis unfolding r by simp
qed

text \<open>
  Claim C4, amended. In every run of \<open>create\<close>, no directory or file of the project is
  created before the upload of the environment file has succeeded, and no upload is tried
  before the bucket has been ensured; a run in which the upload has not succeeded has
  failed, and by the first part it has created no directory or file of the project. Only
  the credential profile may be saved before the storage step.
\<close>

theorem storage_before_local_files:
  "\<not> list_ex (\<lambda>x. createsProjectFile (fst x))
       (takeWhile (\<lambda>x. \<not> envFileSeeded x) (fst (create e pr n st b rg em pf x))) \<and>
   \<not> list_ex (\<lambda>x. isPutEnvFile (fst x))
       (takeWhile (\<lambda>x. \<not> bucketEnsured x) (fst (create e pr n st b rg em pf x))) \<and>
   (list_ex envFileSeeded (fst (create e pr n st b rg em pf x)) \<or>
    isl (snd (create e pr n st b rg em pf x)))"
proof -
  define a where "a = getAnswers e n st b rg em pf"
  define run where "run = create e pr n st b rg em pf x"
  obtain tr0 r0 where p: "prepareProjectData e pr a = (tr0, r0)" by (cases "prepareProjectData e pr a")
  have quiet: "\<not> createsProjectFile (fst y) \<and> \<not> isPutEnvFile (fst y) \<and> \<not> envFileSeeded y \<and> \<not> bucketEnsured y"
    if "y \<in> set tr0" for y
    using prepare_events [of y e pr a] that p by auto
  have goal: "\<not> list_ex (\<lambda>x. createsProjectFile (fst x)) (takeWhile (\<lambda>x. \<not> envFileSeeded x) (fst run)) \<and>
              \<not> list_ex (\<lambda>x. isPutEnvFile (fst x)) (takeWhile (\<lambda>x. \<not> bucketEnsured x) (fst run)) \<and>
              (list_ex envFileSeeded (fst run) \<or> isl (snd run))"
  proof (cases r0)
    case (Inl err)
    then have r: "run = (tr0, Inl err)"
      by (simp add: run_def create_def a_def [symmetric] p andThen_Inl)
    show ?thesis
      using quiet by (auto simp: r list_ex_iff dest: set_takeWhileD)
  next
    case (Inr pr1)
    define cb where "cb = CreateBucket (project_awsProfile pr1) (project_region pr1) (project_s3Bucket pr1)"
    define pe where "pe = PutEnvFile (project_awsProfile pr1) (project_region pr1) (project_s3Bucket pr1)
                (project_name pr1) (project_stage pr1) (envFileContents pr1)"
    have r: "run = andThen (tr0, Inr pr1)
               (\<lambda>pr1. andThen (createS3JawsStructure e pr1)
               (\<lambda>u. andThen (createProjectDirectory e pr1)
               (\<lambda>pr2. if x then createProjectJson e pr2 None
                       else andThen (createCfStack e pr2) (createProjectJson e pr2))))"
      by (simp add: run_def create_def a_def [symmetric] p Inr)
    have tw1: "takeWhile (\<lambda>x. \<not> envFileSeeded x) (tr0 @ ys) = tr0 @ takeWhile (\<lambda>x. \<not> envFileSeeded x) ys" for ys
      using quiet by (simp add: takeWhile_append2)
    have tw2: "takeWhile (\<lambda>x. \<not> bucketEnsured x) (tr0 @ ys) = tr0 @ takeWhile (\<lambda>x. \<not> bucketEnsured x) ys" for ys
      using quiet by (simp add: takeWhile_append2)
    have q1: "\<not> list_ex (\<lambda>x. createsProjectFile (fst x)) tr0" using quiet by (auto simp: list_ex_iff)
    have q2: "\<not> list_ex (\<lambda>x. isPutEnvFile (fst x)) tr0" using quiet by (auto simp: list_ex_iff)
    consider err where "createS3JawsStructure e pr1 = ([(cb, False)], Inl err)"
      | err where "createS3JawsStructure e pr1 = ([(cb, True), (pe, False)], Inl err)"
      | "createS3JawsStructure e pr1 = ([(cb, True), (pe, True)], Inr ())"
      using s3_cases [of e pr1] unfolding cb_def pe_def by blast
    then show ?thesis
    proof cases
      case 1
      then have "run = (tr0 @ [(cb, False)], Inl err)"
        by (simp add: r andThen_Inr andThen_Inl)
      then show ?thesis using q1 q2 by (simp add: tw1 tw2 cb_def)
    next
      case 2
      then have "run = (tr0 @ [(cb, True), (pe, False)], Inl err)"
        by (simp add: r andThen_Inr andThen_Inl)
      then show ?thesis using q1 q2 by (simp add: tw1 tw2 cb_def pe_def)
    next
      case 3
      then obtain rest where "fst run = tr0 @ [(cb, True), (pe, True)] @ rest"
        by (simp add: r andThen_Inr)
      then show ?thesis using q1 q2 by (simp add: tw1 tw2 cb_def pe_def)
    qed
  qed
  then show ?thesis by (simp add: run_def)
qed

subsection \<open>The name of a project whose directory exists\<close>















subsection \<open>The manifest\<close>

text \<open>
  For every stage but \<open>__proto__\<close> the manifest has the stage as its one key, with one
  deployment record, whose region is the region of the bucket.
\<close>

lemma manifest_invariant:
  assumes "project_stage pr \<noteq> ''__proto__''"
    and "snd (createProjectJson e pr outs) = Inr j"
  shows "\<exists>d. ownProperties (json_stages j) = [(project_stage pr, [d])] \<and>
             deployment_region d = bucket_region (json_envVarBucket j)"
  using assms
  by (auto simp: createProjectJson_def pushProperty_def setProperty_def emptyObject_def
                 andThen_def call_def Let_def
           split: sum.splits option.splits if_splits)

text \<open>
  Claim C10. With the stage \<open>__proto__\<close> every call succeeds and the command resolves
  with a manifest whose \<open>stages\<close> object has no key at all: the deployment record is in the
  array that has become the prototype of the object.
\<close>

theorem proto_stage_no_key:
  "map_sum id (\<lambda>j. (ownProperties (json_stages j), prototypeArray (json_stages j),
                      bucket_region (json_envVarBucket j)))
     (snd (create someEnv someProject (Some ''myproject'') (Some ''__proto__'') None None None None True)) =
     Inr ([], Some [\<lparr>deployment_region = ''us-east-1'', iamRoleArnLambda = [],
                      iamRoleArnApiGateway = []\<rparr>], ''us-east-1'') \<and>
   list_all snd (fst (create someEnv someProject (Some ''myproject'') (Some ''__proto__'') None None None None True))"
proof -
  let ?A = "someAnswers\<lparr>answers_name := ''myproject'', answers_stage := ''__proto__''\<rparr>"
  let ?P1 = "\<lparr>project_name = ''myproject'', project_awsProfile = ''default'', project_stage = ''__proto__'',
       project_region = ''us-east-1'', project_notificationEmail = [],
       project_s3Bucket = ''jawsproject.yourdomain.com'', project_rootPath = []\<rparr>"
  let ?P2 = "\<lparr>project_name = ''myproject'', project_awsProfile = ''default'', project_stage = ''__proto__'',
       project_region = ''us-east-1'', project_notificationEmail = [],
       project_s3Bucket = ''jawsproject.yourdomain.com'',
       project_rootPath = ''/home/u/myproject''\<rparr>"
  let ?T1 = "[(CreateBucket ''default'' ''us-east-1'' ''jawsproject.yourdomain.com'', True),
      (PutEnvFile ''default'' ''us-east-1'' ''jawsproject.yourdomain.com'' ''myproject'' ''__proto__''
         (''JAWS_STAGE=__proto__'' @ [char_of (10 :: nat)] @ ''JAWS_DATA_MODEL_PREFIX=__proto__''), True)]"
  let ?K3 = "\<lambda>pr2. createProjectJson someEnv pr2 None"
  have a: "getAnswers someEnv (Some ''myproject'') (Some ''__proto__'') None None None None = ?A"
    by (simp add: getAnswers_def someEnv_def someAnswers_def orElse_def)
  have p: "prepareProjectData someEnv someProject ?A = ([], Inr ?P1)"
    by code_simp
  have s: "createS3JawsStructure someEnv ?P1 = (?T1, Inr ())"
    by code_simp
  have d1: "snd (createProjectDirectory someEnv ?P1) = Inr ?P2"
    by code_simp
  have d: "createProjectDirectory someEnv ?P1 = (fst (createProjectDirectory someEnv ?P1), Inr ?P2)"
    using d1 by (metis prod.collapse)
  have k: "andThen (createProjectDirectory someEnv ?P1) ?K3 =
      (fst (createProjectDirectory someEnv ?P1) @ fst (createProjectJson someEnv ?P2 None),
       snd (createProjectJson someEnv ?P2 None))"
    by (subst d) (simp add: andThen_Inr)
  have run: "create someEnv someProject (Some ''myproject'') (Some ''__proto__'') None None None None True =
      (?T1 @ fst (createProjectDirectory someEnv ?P1) @ fst (createProjectJson someEnv ?P2 None),
       snd (createProjectJson someEnv ?P2 None))"
    unfolding create_def a p andThen_Inr
    by (simp add: s andThen_Inr k)

  have d2: "list_all snd (fst (createProjectDirectory someEnv ?P1))"
    by code_simp
  have j1: "map_sum id (\<lambda>j. (ownProperties (json_stages j), prototypeArray (json_stages j),
                      bucket_region (json_envVarBucket j)))
              (snd (createProjectJson someEnv ?P2 None)) =
     Inr ([], Some [\<lparr>deployment_region = ''us-east-1'', iamRoleArnLambda = [],
                      iamRoleArnApiGateway = []\<rparr>], ''us-east-1'')"
    by code_simp
  have j2: "list_all snd (fst (createProjectJson someEnv ?P2 None))"
    by code_simp
  show ?thesis
    unfolding run by (simp add: d2 j1 j2)
qed

end
